theory Spec2Isabelle
  imports Complex_Main "HOL-Library.Word" "HOL-Library.AList"
begin

section \<open>Python values used by the inverter library\<close>

text \<open>
  A Python \<open>bytes\<close> object is a list of 8-bit words. Python integers are unbounded:
  lengths and byte sums are \<open>nat\<close>, decoded values (which may be signed) are \<open>int\<close>.
\<close>

type_synonym byte = "8 word"
type_synonym bytes = "byte list"

text \<open>
  The exceptions the modelled code can raise. \<open>KeyError\<close> carries the key that was looked
  up in a dictionary; the key is either \<open>None\<close> or an integer. \<open>TypeError\<close> is what
  \<open>len(None)\<close> raises.
\<close>

datatype error = OverflowError | ValueError | KeyError "int option" | TypeError

text \<open>\<open>int.to_bytes(length, byteorder='big')\<close> for a non-negative integer: the big-endian
  digits in base 256, or \<open>OverflowError\<close> when the integer needs more than \<open>length\<close> bytes.\<close>

fun to_bytes_big :: "nat \<Rightarrow> nat \<Rightarrow> bytes" where
  "to_bytes_big 0 v = []"
| "to_bytes_big (Suc n) v = to_bytes_big n (v div 256) @ [of_nat (v mod 256)]"

definition to_bytes :: "nat \<Rightarrow> nat \<Rightarrow> error + bytes" where
  "to_bytes v n = (if 256 ^ n \<le> v then Inl OverflowError else Inr (to_bytes_big n v))"

text \<open>\<open>int.from_bytes(b, byteorder='big', signed=...)\<close>; the empty byte string is 0.\<close>

definition from_bytes_big :: "bytes \<Rightarrow> nat" where
  "from_bytes_big b = foldl (\<lambda>acc x. acc * 256 + unat x) 0 b"

definition from_bytes :: "bytes \<Rightarrow> bool \<Rightarrow> int" where
  "from_bytes b is_signed =
     (let u = int (from_bytes_big b)
      in if is_signed \<and> b \<noteq> [] \<and> 2 ^ (8 * length b - 1) \<le> u then u - 2 ^ (8 * length b) else u)"

text \<open>\<open>bytes.startswith(prefix)\<close>.\<close>

definition startswith :: "bytes \<Rightarrow> bytes \<Rightarrow> bool" where
  "startswith b p = (take (length p) b = p)"

text \<open>\<open>b[start:stop]\<close> with Python's rules: a negative bound counts from the end, and
  bounds are clamped to the length, so a slice never raises.\<close>

definition slice_bound :: "nat \<Rightarrow> int \<Rightarrow> nat" where
  "slice_bound len i = (if i < 0 then nat (max 0 (int len + i)) else min (nat i) len)"

definition slice_bytes :: "bytes \<Rightarrow> int \<Rightarrow> int \<Rightarrow> bytes" where
  "slice_bytes b start stop =
     (let lo = slice_bound (length b) start; hi = slice_bound (length b) stop
      in take (hi - lo) (drop lo b))"

text \<open>\<open>bytes.find(x)\<close> for a byte value \<open>x\<close>: the lowest index holding \<open>x\<close>, or \<open>-1\<close>.\<close>

fun find_from :: "int \<Rightarrow> bytes \<Rightarrow> byte \<Rightarrow> int" where
  "find_from i [] x = -1"
| "find_from i (y # ys) x = (if y = x then i else find_from (i + 1) ys x)"

definition find_bytes :: "bytes \<Rightarrow> byte \<Rightarrow> int" where
  "find_bytes b x = find_from 0 b x"

section \<open>Framing codec (lib/inverter.py)\<close>

text \<open>\<open>calculate_checksum\<close>: \<open>sum(message).to_bytes(2, byteorder='big')\<close>.\<close>

definition calculate_checksum :: "bytes \<Rightarrow> error + bytes" where
  "calculate_checksum message = to_bytes (sum_list (map unat message)) 2"

text \<open>\<open>construct_message\<close>: start marker, identifier, two length bytes, payload, checksum.\<close>

definition construct_message :: "bytes \<Rightarrow> bytes \<Rightarrow> error + bytes" where
  "construct_message identifier payload =
     (let start = [0x55, 0xaa] in
      case to_bytes (length payload) 2 of
        Inl e \<Rightarrow> Inl e
      | Inr payload_size \<Rightarrow>
          (let message = start @ identifier @ payload_size @ payload in
           case calculate_checksum message of
             Inl e \<Rightarrow> Inl e
           | Inr checksum \<Rightarrow> Inr (message @ checksum)))"

text \<open>
  The stream a message is read from is the list of bytes that are still to come, followed by
  end of file. \<open>stream.read(n)\<close> returns the next \<open>n\<close> bytes, or fewer (possibly none) at
  end of file, and leaves the rest in the stream.
\<close>

definition read :: "nat \<Rightarrow> bytes \<Rightarrow> bytes \<times> bytes" where
  "read n stream = (take n stream, drop n stream)"

text \<open>
  \<open>read_message\<close>. The checks of the start marker, of end of file and of the checksum are
  commented out in the source, so the only exception left is the \<open>ValueError\<close> for a payload
  size above 4096. The result is paired with the rest of the stream.
\<close>

definition read_message :: "bytes \<Rightarrow> (error + bytes \<times> bytes) \<times> bytes" where
  "read_message stream =
     (let (start, s1) = read 2 stream;
          (identifier, s2) = read 3 s1;
          (payload_size_bytes, s3) = read 2 s2;
          payload_size = from_bytes payload_size_bytes False
      in if payload_size < 0 \<or> payload_size > 4096 then (Inl ValueError, s3)
         else
           (let (payload, s4) = read (nat payload_size) s3;
                (checksum, s5) = read 2 s4;
                message = start @ identifier @ payload_size_bytes @ payload
            in (Inr (identifier, payload), s5)))"

section \<open>Status types (lib/statustypes.py)\<close>

text \<open>
  A \<open>decimal.Decimal\<close> is a coefficient and an exponent: \<open>Decimal c e\<close> stands for
  \<open>c * 10 ^ e\<close>. \<open>Decimal(n)\<close> of an integer has exponent 0, and \<open>scaleb\<close> adds to the
  exponent. (Python rounds the coefficient to the context precision of 28 digits; the
  fields of the registry read at most four bytes, far below that.)
\<close>

datatype decimal = Decimal int int

definition Decimal_of_int :: "int \<Rightarrow> decimal" where
  "Decimal_of_int n = Decimal n 0"

fun scaleb :: "decimal \<Rightarrow> int \<Rightarrow> decimal" where
  "scaleb (Decimal c e) k = Decimal c (e + k)"

text \<open>What \<open>get_value\<close> can return besides \<open>None\<close>.\<close>

datatype status_value =
    BytesValue bytes
  | IntValue int
  | DecimalValue decimal
  | StrValue string

text \<open>
  The class hierarchy as a tagged variant, each constructor holding the attributes its
  \<open>__init__\<close> stores: \<open>type_ids\<close>; \<open>type_ids\<close> and \<open>signed\<close>; \<open>type_ids\<close>, \<open>scale\<close> and
  \<open>signed\<close>; nothing; \<open>status_types\<close>; \<open>type_id\<close>, \<open>presence\<close> and \<open>status_type\<close>.
\<close>

datatype status_type =
    BytesStatusType "byte list"
  | IntStatusType "byte list" bool
  | DecimalStatusType "byte list" int bool
  | OperationModeStatusType
  | OneOfStatusType "status_type list"
  | IfPresentStatusType byte bool status_type

text \<open>\<open>BytesStatusType.get_value\<close>.\<close>

definition BytesStatusType_get_value :: "byte list \<Rightarrow> bytes \<Rightarrow> bytes \<Rightarrow> bytes option" where
  "BytesStatusType_get_value type_ids status_format status_payload =
     (let indices = map (\<lambda>type_id. find_bytes status_format type_id) type_ids
      in if -1 \<in> set indices then None
         else
           (let values = map (\<lambda>i. slice_bytes status_payload (i * 2) (i * 2 + 2)) indices
            in Some (concat values)))"

text \<open>\<open>IntStatusType.get_value\<close>.\<close>

definition IntStatusType_get_value :: "byte list \<Rightarrow> bool \<Rightarrow> bytes \<Rightarrow> bytes \<Rightarrow> int option" where
  "IntStatusType_get_value type_ids is_signed status_format status_payload =
     (case BytesStatusType_get_value type_ids status_format status_payload of
        None \<Rightarrow> None
      | Some sequence \<Rightarrow> Some (from_bytes sequence is_signed))"

text \<open>\<open>DecimalStatusType.get_value\<close>.\<close>

definition DecimalStatusType_get_value ::
  "byte list \<Rightarrow> int \<Rightarrow> bool \<Rightarrow> bytes \<Rightarrow> bytes \<Rightarrow> decimal option" where
  "DecimalStatusType_get_value type_ids scale is_signed status_format status_payload =
     (case IntStatusType_get_value type_ids is_signed status_format status_payload of
        None \<Rightarrow> None
      | Some int_val \<Rightarrow> Some (scaleb (Decimal_of_int int_val) scale))"

text \<open>
  \<open>OperationModeStatusType.get_value\<close>. The dictionary is indexed with whatever the
  superclass returned, \<open>None\<close> included; a key that is not in it raises \<open>KeyError\<close>.
\<close>

definition operating_modes :: "(int option \<times> string) list" where
  "operating_modes =
     [(Some 0, ''Wait''), (Some 1, ''Normal''), (Some 2, ''Fault''),
      (Some 3, ''Permanent fault''), (Some 4, ''Check''), (Some 5, ''PV power off'')]"

definition getitem :: "(int option \<times> string) list \<Rightarrow> int option \<Rightarrow> error + string" where
  "getitem d k = (case map_of d k of None \<Rightarrow> Inl (KeyError k) | Some v \<Rightarrow> Inr v)"

definition OperationModeStatusType_get_value :: "bytes \<Rightarrow> bytes \<Rightarrow> error + string" where
  "OperationModeStatusType_get_value status_format status_payload =
     (let int_val = IntStatusType_get_value [0x0c] False status_format status_payload
      in getitem operating_modes int_val)"

text \<open>
  \<open>get_value\<close> with the dispatch on the class; \<open>OneOfStatusType_get_value\<close> is the loop of
  \<open>OneOfStatusType.get_value\<close> over the remaining status types. An exception raised by
  a constituent propagates.
\<close>

fun get_value :: "status_type \<Rightarrow> bytes \<Rightarrow> bytes \<Rightarrow> error + status_value option"
  and OneOfStatusType_get_value ::
    "status_type list \<Rightarrow> bytes \<Rightarrow> bytes \<Rightarrow> error + status_value option"
where
  "get_value (BytesStatusType type_ids) status_format status_payload =
     Inr (map_option BytesValue
            (BytesStatusType_get_value type_ids status_format status_payload))"
| "get_value (IntStatusType type_ids is_signed) status_format status_payload =
     Inr (map_option IntValue
            (IntStatusType_get_value type_ids is_signed status_format status_payload))"
| "get_value (DecimalStatusType type_ids scale is_signed) status_format status_payload =
     Inr (map_option DecimalValue
            (DecimalStatusType_get_value type_ids scale is_signed status_format status_payload))"
| "get_value OperationModeStatusType status_format status_payload =
     (case OperationModeStatusType_get_value status_format status_payload of
        Inl e \<Rightarrow> Inl e
      | Inr mode \<Rightarrow> Inr (Some (StrValue mode)))"
| "get_value (OneOfStatusType status_types) status_format status_payload =
     OneOfStatusType_get_value status_types status_format status_payload"
| "get_value (IfPresentStatusType type_id presence status_type) status_format status_payload =
     (let actual_presence =
            (BytesStatusType_get_value [type_id] status_format status_payload \<noteq> None)
      in if presence = actual_presence
         then get_value status_type status_format status_payload
         else Inr None)"
| "OneOfStatusType_get_value [] status_format status_payload = Inr None"
| "OneOfStatusType_get_value (status_type # rest) status_format status_payload =
     (case get_value status_type status_format status_payload of
        Inl e \<Rightarrow> Inl e
      | Inr (Some val) \<Rightarrow> Inr (Some val)
      | Inr None \<Rightarrow> OneOfStatusType_get_value rest status_format status_payload)"

text \<open>The registry \<open>status_types\<close>, in its declared order.\<close>

definition status_types :: "(string \<times> status_type) list" where
  "status_types =
     [(''operation_mode'', OperationModeStatusType),
      (''total_operation_time'', IntStatusType [0x09, 0x0a] False),
      (''pv1_input_power'', DecimalStatusType [0x27] 0 False),
      (''pv2_input_power'', DecimalStatusType [0x28] 0 False),
      (''pv1_voltage'', DecimalStatusType [0x01] (-1) False),
      (''pv2_voltage'', DecimalStatusType [0x02] (-1) False),
      (''pv1_current'', DecimalStatusType [0x04] (-1) False),
      (''pv2_current'', DecimalStatusType [0x05] (-1) False),
      (''output_power'',
         OneOfStatusType [DecimalStatusType [0x0b] 0 False, DecimalStatusType [0x34] 0 False]),
      (''energy_today'', DecimalStatusType [0x11] (-2) False),
      (''energy_total'',
         OneOfStatusType [DecimalStatusType [0x07, 0x08] (-1) False,
                          DecimalStatusType [0x35, 0x36] (-1) False]),
      (''grid_voltage'', IfPresentStatusType 0x51 False (DecimalStatusType [0x32] (-1) False)),
      (''grid_current'', IfPresentStatusType 0x51 False (DecimalStatusType [0x31] (-1) False)),
      (''grid_frequency'', IfPresentStatusType 0x51 False (DecimalStatusType [0x33] (-2) False)),
      (''grid_voltage_r_phase'',
         IfPresentStatusType 0x51 True (DecimalStatusType [0x32] (-1) False)),
      (''grid_current_r_phase'',
         IfPresentStatusType 0x51 True (DecimalStatusType [0x31] (-1) False)),
      (''grid_frequency_r_phase'',
         IfPresentStatusType 0x51 True (DecimalStatusType [0x33] (-2) False)),
      (''grid_voltage_s_phase'', DecimalStatusType [0x52] (-1) False),
      (''grid_current_s_phase'', DecimalStatusType [0x51] (-1) False),
      (''grid_frequency_s_phase'', DecimalStatusType [0x53] (-2) False),
      (''grid_voltage_t_phase'', DecimalStatusType [0x72] (-1) False),
      (''grid_current_t_phase'', DecimalStatusType [0x71] (-1) False),
      (''grid_frequency_t_phase'', DecimalStatusType [0x73] (-2) False),
      (''internal_temperature'', DecimalStatusType [0x00] (-1) True),
      (''heatsink_temperature'', DecimalStatusType [0x2f] (-1) True)]"

text \<open>The registry entry of a name (\<open>status_types[name]\<close> for a name that is declared).\<close>

definition status_type_of :: "string \<Rightarrow> status_type option" where
  "status_type_of name = map_of status_types name"

text \<open>
  The type ids whose payload slots decide the value of a status type: the \<open>type_ids\<close> of
  the classes that slice the payload, those of every constituent of a \<open>OneOfStatusType\<close>,
  and those of the status type an \<open>IfPresentStatusType\<close> delegates to (the gate's own type
  id is only tested for presence).
\<close>

fun slot_ids :: "status_type \<Rightarrow> byte list" where
  "slot_ids (BytesStatusType type_ids) = type_ids"
| "slot_ids (IntStatusType type_ids is_signed) = type_ids"
| "slot_ids (DecimalStatusType type_ids scale is_signed) = type_ids"
| "slot_ids OperationModeStatusType = [0x0c]"
| "slot_ids (OneOfStatusType constituents) = concat (map slot_ids constituents)"
| "slot_ids (IfPresentStatusType type_id presence status_type) = slot_ids status_type"

text \<open>
  The values that an empty slot decodes to: the empty byte string, the integer 0, a decimal
  with coefficient 0, and the operation mode of the integer 0.
\<close>

fun reads_as_zero :: "status_value \<Rightarrow> bool" where
  "reads_as_zero (BytesValue b) = (b = [])"
| "reads_as_zero (IntValue n) = (n = 0)"
| "reads_as_zero (DecimalValue (Decimal c e)) = (c = 0)"
| "reads_as_zero (StrValue mode) = (mode = ''Wait'')"

section \<open>The session (class Inverter of lib/inverter.py)\<close>

text \<open>
  The state of an \<open>Inverter\<close> object and of the world it talks to: the attribute
  \<open>_status_format\<close>, the bytes that \<open>sock_file\<close> will still deliver (then end of file),
  the arguments of the \<open>sock_file.write\<close> calls made so far, and the records handed to
  \<open>logging\<close>. Socket errors and timeouts are outside the model.
\<close>

datatype log_level = DEBUG | INFO | WARNING

datatype log_record = LogRecord log_level string "bytes list"

record inverter =
  priv_status_format :: "bytes option"
  sock_file_in :: bytes
  sock_file_out :: "bytes list"
  logging :: "log_record list"

text \<open>Python's truth value of \<open>self._status_format\<close>: \<open>None\<close> and \<open>b''\<close> are both false.\<close>

fun truthy :: "bytes option \<Rightarrow> bool" where
  "truthy None = False"
| "truthy (Some b) = (b \<noteq> [])"

text \<open>\<open>Inverter.send\<close>.\<close>

definition send :: "bytes \<Rightarrow> bytes \<Rightarrow> inverter \<Rightarrow> (error + unit) \<times> inverter" where
  "send identifier payload s =
     (case construct_message identifier payload of
        Inl e \<Rightarrow> (Inl e, s)
      | Inr message \<Rightarrow>
          (Inr (),
           s\<lparr>logging := logging s @ [LogRecord DEBUG ''send'' [message]],
             sock_file_out := sock_file_out s @ [message]\<rparr>))"

text \<open>\<open>Inverter.receive\<close>.\<close>

definition receive :: "inverter \<Rightarrow> (error + bytes \<times> bytes) \<times> inverter" where
  "receive s = (case read_message (sock_file_in s) of (r, rest) \<Rightarrow> (r, s\<lparr>sock_file_in := rest\<rparr>))"

text \<open>
  \<open>Inverter.request\<close>. The \<open>while\<close> loop has no bound: at end of file \<open>read_message\<close> keeps
  returning a pair of empty byte strings, so the loop may run forever. \<open>request_loop\<close> is the
  loop, entered with the response received last; \<open>None\<close> is the run that never returns.
\<close>

partial_function (option) request_loop ::
  "bytes \<Rightarrow> bytes \<Rightarrow> bytes \<times> bytes \<Rightarrow> inverter \<Rightarrow> ((error + bytes \<times> bytes) \<times> inverter) option"
where
  "request_loop identifier expected_response_id response s =
     (if startswith (fst response) expected_response_id then Some (Inr response, s)
      else
        (case receive
                (s\<lparr>logging := logging s @
                     [LogRecord WARNING ''unexpected response'' [fst response, identifier]]\<rparr>) of
           (Inl e, s') \<Rightarrow> Some (Inl e, s')
         | (Inr response', s') \<Rightarrow> request_loop identifier expected_response_id response' s'))"

declare request_loop.simps [code]

definition request ::
  "bytes \<Rightarrow> bytes \<Rightarrow> bytes \<Rightarrow> inverter \<Rightarrow> ((error + bytes \<times> bytes) \<times> inverter) option"
where
  "request identifier payload expected_response_id s =
     (case send identifier payload s of
        (Inl e, s1) \<Rightarrow> Some (Inl e, s1)
      | (Inr u, s1) \<Rightarrow>
          (case receive s1 of
             (Inl e, s2) \<Rightarrow> Some (Inl e, s2)
           | (Inr response, s2) \<Rightarrow> request_loop identifier expected_response_id response s2))"

text \<open>\<open>Inverter.status_format\<close>.\<close>

definition status_format :: "inverter \<Rightarrow> ((error + bytes) \<times> inverter) option" where
  "status_format s =
     (case request [0x01, 0x00, 0x02] [] [0x01, 0x80] s of
        None \<Rightarrow> None
      | Some (Inl e, s') \<Rightarrow> Some (Inl e, s')
      | Some (Inr (ident, payload), s') \<Rightarrow> Some (Inr payload, s'))"

text \<open>
  The \<open>for\<close> loop of \<open>Inverter.status\<close> over the registry. \<open>status_values\<close> is the ordered
  dictionary built so far; assigning to a key appends it, or replaces its value in place.
\<close>

fun status_loop ::
  "(string \<times> status_type) list \<Rightarrow> bytes \<Rightarrow> bytes \<Rightarrow> (string \<times> status_value) list \<Rightarrow>
   error + (string \<times> status_value) list"
where
  "status_loop [] fmt payload status_values = Inr status_values"
| "status_loop ((name, type_def) # rest) fmt payload status_values =
     (case get_value type_def fmt payload of
        Inl e \<Rightarrow> Inl e
      | Inr None \<Rightarrow> status_loop rest fmt payload status_values
      | Inr (Some val) \<Rightarrow> status_loop rest fmt payload (AList.update name val status_values))"

text \<open>\<open>Inverter.status\<close>, after the format has been looked up: the status request, the size
  check with its warning, and the loop.\<close>

definition status_request ::
  "inverter \<Rightarrow> ((error + (string \<times> status_value) list) \<times> inverter) option" where
  "status_request s =
     (case request [0x01, 0x02, 0x02] [] [0x01, 0x82] s of
        None \<Rightarrow> None
      | Some (Inl e, s1) \<Rightarrow> Some (Inl e, s1)
      | Some (Inr (ident, payload), s1) \<Rightarrow>
          (case priv_status_format s1 of
             None \<Rightarrow> Some (Inl TypeError, s1)
           | Some fmt \<Rightarrow>
               (let s2 = (if 2 * length fmt \<noteq> length payload
                          then s1\<lparr>logging := logging s1 @
                                   [LogRecord WARNING ''size of status payload and format differs''
                                      [fmt, payload]]\<rparr>
                          else s1)
                in Some (status_loop status_types fmt payload [], s2))))"

text \<open>\<open>Inverter.status\<close>.\<close>

definition status ::
  "inverter \<Rightarrow> ((error + (string \<times> status_value) list) \<times> inverter) option" where
  "status s =
     (if \<not> truthy (priv_status_format s)
      then
        (case status_format s of
           None \<Rightarrow> None
         | Some (Inl e, s') \<Rightarrow> Some (Inl e, s')
         | Some (Inr fmt, s') \<Rightarrow> status_request (s'\<lparr>priv_status_format := Some fmt\<rparr>))
      else status_request s)"

section \<open>Keep-alive (class KeepAliveInverter of lib/inverter.py)\<close>

text \<open>
  \<open>KeepAliveInverter.__init__\<close> stores its argument \<open>keep_alive\<close>, in seconds, as
  \<open>keep_alive_period\<close>; an omitted argument (\<open>None\<close> here) takes the default of the
  signature, \<open>keep_alive: float = 10.0\<close>. The thread itself is outside the model.
\<close>

record keep_alive_inverter = inverter +
  keep_alive_period :: real

definition KeepAliveInverter_init :: "bytes \<Rightarrow> real option \<Rightarrow> keep_alive_inverter" where
  "KeepAliveInverter_init sock keep_alive =
     \<lparr>priv_status_format = None, sock_file_in = sock, sock_file_out = [], logging = [],
      keep_alive_period = (case keep_alive of None \<Rightarrow> 10.0 | Some period \<Rightarrow> period)\<rparr>"

text \<open>\<open>KeepAliveInverter.keep_alive\<close>: the superclass \<open>send\<close>, then the superclass
  \<open>receive\<close>, whose result is dropped.\<close>

definition keep_alive :: "inverter \<Rightarrow> (error + unit) \<times> inverter" where
  "keep_alive s =
     (case send [0x01, 0x09, 0x02] [] s of
        (Inl e, s1) \<Rightarrow> (Inl e, s1)
      | (Inr u, s1) \<Rightarrow>
          (case receive s1 of
             (Inl e, s2) \<Rightarrow> (Inl e, s2)
           | (Inr msg, s2) \<Rightarrow> (Inr (), s2)))"

section \<open>Properties of the framing codec\<close>

lemma to_bytes_big_2: "to_bytes_big 2 v = [of_nat (v div 256 mod 256), of_nat (v mod 256)]"
  by (simp add: numeral_2_eq_2)

lemma sum_list_unat_replicate: "sum_list (map unat (replicate n (b::byte))) = n * unat b"
  by (induction n) simp_all

lemma length_to_bytes_big: "length (to_bytes_big n v) = n"
  by (induction n arbitrary: v) simp_all

lemma unat_byte_of_nat: "unat (of_nat n :: byte) = n mod 256"
  by (simp add: unat_of_nat)

lemma from_bytes_big_to_bytes_big_2:
  assumes "v < 65536"
  shows "from_bytes_big (to_bytes_big 2 v) = v"
proof -
  have "v div 256 < 256" using assms by simp
  then show ?thesis
    by (simp add: to_bytes_big_2 from_bytes_big_def unat_byte_of_nat)
qed

lemma from_bytes_unsigned: "from_bytes b False = int (from_bytes_big b)"
  by (simp add: from_bytes_def)

text \<open>
  Where \<open>construct_message\<close> returns a frame, \<open>read_message\<close> gives the identifier and the
  payload back and leaves what follows the frame in the stream.
\<close>

lemma read_message_construct_message:
  assumes len_id: "length ident = 3"
    and len_pl: "length payload \<le> 4096"
    and ok: "construct_message ident payload = Inr frame"
  shows "read_message (frame @ rest) = (Inr (ident, payload), rest)"
proof -
  from ok obtain checksum where
    frame: "frame = [0x55, 0xaa] @ ident @ to_bytes_big 2 (length payload) @ payload @ checksum"
    and ck: "calculate_checksum ([0x55, 0xaa] @ ident @ to_bytes_big 2 (length payload) @ payload)
             = Inr checksum"
    by (auto simp: construct_message_def Let_def to_bytes_def split: sum.splits if_splits)
  from ck have lck: "length checksum = 2"
    by (auto simp: calculate_checksum_def to_bytes_def length_to_bytes_big split: if_splits)
  obtain a b c where ident: "ident = [a, b, c]"
    using len_id by (auto simp: length_Suc_conv numeral_3_eq_3)
  have sz: "from_bytes_big (to_bytes_big 2 (length payload)) = length payload"
    using len_pl by (intro from_bytes_big_to_bytes_big_2) simp
  obtain h l where hl: "to_bytes_big 2 (length payload) = [h, l]"
    by (simp add: to_bytes_big_2)
  show ?thesis
    using sz lck len_pl unfolding frame ident hl
    by (simp add: read_message_def read_def from_bytes_unsigned)
qed

text \<open>\<open>construct_message\<close> returns a frame exactly when the length and the byte sum of
  everything before the checksum both fit into two bytes.\<close>

lemma construct_message_Inr_iff:
  "(\<exists>frame. construct_message ident payload = Inr frame) \<longleftrightarrow>
     length payload < 65536 \<and>
     sum_list (map unat ([0x55, 0xaa] @ ident @ to_bytes_big 2 (length payload) @ payload))
       < 65536"
  by (auto simp: construct_message_def calculate_checksum_def to_bytes_def Let_def
           simp del: to_bytes_big.simps)

text \<open>A checksum that is returned is two bytes holding the byte sum, which is then below
  \<open>2 ^ 16\<close>.\<close>

lemma calculate_checksum_Inr:
  assumes "calculate_checksum message = Inr checksum"
  shows "length checksum = 2 \<and> from_bytes_big checksum = sum_list (map unat message) mod 2 ^ 16"
proof -
  from assms have lt: "sum_list (map unat message) < 65536"
    and ck: "checksum = to_bytes_big 2 (sum_list (map unat message))"
    by (auto simp: calculate_checksum_def to_bytes_def split: if_splits)
  show ?thesis using lt from_bytes_big_to_bytes_big_2 [OF lt]
    by (simp add: ck length_to_bytes_big)
qed

text \<open>In a frame that \<open>construct_message\<close> returns, the last two bytes are the sum of
  all bytes before them, which is then its own remainder modulo \<open>2 ^ 16\<close>.\<close>

lemma construct_message_checksum:
  assumes "construct_message ident payload = Inr frame"
  shows "from_bytes_big (drop (length frame - 2) frame) =
           sum_list (map unat (take (length frame - 2) frame)) mod 2 ^ 16"
proof -
  have "\<exists>message checksum. frame = message @ checksum \<and>
          calculate_checksum message = Inr checksum"
    using assms unfolding construct_message_def Let_def
    by (auto split: sum.splits simp del: append.simps append_assoc)
  then obtain message checksum where frame: "frame = message @ checksum"
    and ck: "calculate_checksum message = Inr checksum"
    by blast
  from calculate_checksum_Inr [OF ck] show ?thesis by (simp add: frame)
qed

text \<open>The only exception \<open>read_message\<close> raises is the \<open>ValueError\<close> of the size check.\<close>

lemma read_message_error: "fst (read_message stream) = Inl e \<Longrightarrow> e = ValueError"
  by (auto simp: read_message_def Let_def split: prod.splits if_splits)

text \<open>
  Claim C1 (round trip of \<open>construct_message\<close> and \<open>read_message\<close> for every 3-byte
  identifier and every payload of at most 4096 bytes). The identifier \<open>01 02 02\<close> with a
  payload of 257 bytes \<open>ff\<close> is in that domain, but the bytes before the checksum sum to
  65797, which \<open>to_bytes(2)\<close> refuses: \<open>construct_message\<close> raises \<open>OverflowError\<close>, so
  there is no frame to decode.
\<close>

theorem construct_message_then_read_message_overflow:
  "(case construct_message [0x01, 0x02, 0x02] (replicate 257 0xff) of
      Inl e \<Rightarrow> Inl e
    | Inr frame \<Rightarrow> fst (read_message frame)) = Inl OverflowError"
  by (simp add: construct_message_def calculate_checksum_def to_bytes_def Let_def
        to_bytes_big_2 sum_list_unat_replicate sum_list_replicate)

text \<open>
  Claim C2 (the trailing two bytes are the byte sum modulo \<open>2 ^ 16\<close>, and encoding is
  total). \<open>calculate_checksum\<close> does not reduce the sum modulo \<open>2 ^ 16\<close>: on the first
  4103 bytes of the frame for identifier \<open>01 02 02\<close> and a payload of 4096 bytes \<open>ff\<close>
  (length bytes \<open>10 00\<close>) the sum is 1044756 and the call raises \<open>OverflowError\<close>, and
  so does \<open>construct_message\<close> for that identifier and payload.
\<close>

theorem calculate_checksum_overflow:
  "calculate_checksum
     ([0x55, 0xaa] @ [0x01, 0x02, 0x02] @ [0x10, 0x00] @ replicate 4096 0xff) =
   Inl OverflowError \<and>
   construct_message [0x01, 0x02, 0x02] (replicate 4096 0xff) = Inl OverflowError"
  by (simp add: construct_message_def calculate_checksum_def to_bytes_def to_bytes_big_2 Let_def
        sum_list_unat_replicate sum_list_replicate)

text \<open>
  Claim C3 (\<open>read_message\<close> fails at end of file, on a wrong start marker and on a wrong
  checksum). With the three checks commented out, \<open>read_message\<close> returns a pair in each
  case: on the empty stream, on a frame that starts with \<open>00 00\<close>, and on a frame whose
  checksum bytes are \<open>ff ff\<close> instead of \<open>01 84\<close>.
\<close>

theorem read_message_checks_disabled:
  "fst (read_message []) = Inr ([], []) \<and>
   fst (read_message [0x00, 0x00, 0x01, 0x82, 0x02, 0x00, 0x00, 0x00, 0x85]) =
     Inr ([0x01, 0x82, 0x02], []) \<and>
   fst (read_message [0x55, 0xaa, 0x01, 0x82, 0x02, 0x00, 0x00, 0xff, 0xff]) =
     Inr ([0x01, 0x82, 0x02], [])"
  by (simp add: read_message_def read_def from_bytes_def from_bytes_big_def)

section \<open>Properties of the status types\<close>

text \<open>
  \<open>find_bytes\<close> is \<open>-1\<close> exactly when the byte does not occur, and otherwise the lowest
  index that holds it.
\<close>

lemma find_from_notin: "x \<notin> set b \<Longrightarrow> find_from i b x = -1"
  by (induction b arbitrary: i) auto

lemma find_from_in:
  "x \<in> set b \<Longrightarrow>
   \<exists>k<length b. find_from i b x = i + int k \<and> b ! k = x \<and> (\<forall>j<k. b ! j \<noteq> x)"
proof (induction b arbitrary: i)
  case Nil
  then show ?case by simp
next
  case (Cons y ys)
  show ?case
  proof (cases "y = x")
    case True
    then show ?thesis by (intro exI [of _ 0]) simp
  next
    case False
    with Cons.prems have "x \<in> set ys" by simp
    from Cons.IH [OF this, of "i + 1"] obtain k where k: "k < length ys"
      "find_from (i + 1) ys x = i + 1 + int k" "ys ! k = x" "\<forall>j<k. ys ! j \<noteq> x"
      by blast
    have "\<forall>j<Suc k. (y # ys) ! j \<noteq> x"
      using False k(4) by (auto simp: nth_Cons split: nat.splits)
    with False k show ?thesis by (intro exI [of _ "Suc k"]) simp
  qed
qed

lemma find_first:
  assumes "x \<in> set b"
  shows "0 \<le> find_bytes b x" and "nat (find_bytes b x) < length b" and "b ! nat (find_bytes b x) = x"
    and "\<forall>j<nat (find_bytes b x). b ! j \<noteq> x"
  using find_from_in [OF assms, of 0] by (auto simp: find_bytes_def)

lemma find_eq_minus_1_iff: "find_bytes b x = -1 \<longleftrightarrow> x \<notin> set b"
  using find_first(1) [of x b] find_from_notin [of x b 0] by (auto simp: find_bytes_def)

text \<open>
  The slice \<open>payload[i*2 : i*2+2]\<close> at a non-negative index is the two bytes at offset
  \<open>2 * i\<close>, fewer where the payload ends early, none when the offset is beyond its end.
\<close>

lemma slice_slot:
  assumes "0 \<le> i"
  shows "slice_bytes p (i * 2) (i * 2 + 2) = take 2 (drop (2 * nat i) p)"
proof -
  have lo: "slice_bound (length p) (i * 2) = min (2 * nat i) (length p)"
    using assms by (simp add: slice_bound_def nat_mult_distrib)
  have hi: "slice_bound (length p) (i * 2 + 2) = min (2 * nat i + 2) (length p)"
    using assms by (simp add: slice_bound_def nat_add_distrib nat_mult_distrib)
  show ?thesis
  proof (cases "2 * nat i < length p")
    case True
    then show ?thesis unfolding slice_bytes_def lo hi Let_def
      by (simp add: min_def)
  next
    case False
    then show ?thesis unfolding slice_bytes_def lo hi Let_def by simp
  qed
qed

text \<open>
  \<open>BytesStatusType.get_value\<close> in closed form: \<open>None\<close> when a type id is missing from
  the format, otherwise the slots of the type ids, in declared order.
\<close>

lemma BytesStatusType_get_value_eq:
  "BytesStatusType_get_value type_ids fmt payload =
     (if set type_ids \<subseteq> set fmt
      then Some (concat (map (\<lambda>t. take 2 (drop (2 * nat (find_bytes fmt t)) payload)) type_ids))
      else None)"
proof (cases "set type_ids \<subseteq> set fmt")
  case True
  then have nonneg: "\<forall>t\<in>set type_ids. 0 \<le> find_bytes fmt t"
    using find_first(1) by blast
  then have no: "-1 \<notin> set (map (\<lambda>t. find_bytes fmt t) type_ids)" by auto
  have eq: "map (\<lambda>i. slice_bytes payload (i * 2) (i * 2 + 2)) (map (\<lambda>t. find_bytes fmt t) type_ids) =
        map (\<lambda>t. take 2 (drop (2 * nat (find_bytes fmt t)) payload)) type_ids"
    using nonneg by (simp add: slice_slot)
  from no have "BytesStatusType_get_value type_ids fmt payload =
      Some (concat (map (\<lambda>i. slice_bytes payload (i * 2) (i * 2 + 2))
                     (map (\<lambda>t. find_bytes fmt t) type_ids)))"
    by (simp add: BytesStatusType_get_value_def Let_def del: set_map map_map)
  also have "\<dots> = Some (concat (map (\<lambda>t. take 2 (drop (2 * nat (find_bytes fmt t)) payload)) type_ids))"
    by (simp only: eq)
  finally show ?thesis using True by simp
next
  case False
  then obtain t where "t \<in> set type_ids" "find_bytes fmt t = -1"
    using find_eq_minus_1_iff by blast
  then have "-1 \<in> set (map (\<lambda>t. find_bytes fmt t) type_ids)" by force
  with False show ?thesis
    by (simp add: BytesStatusType_get_value_def Let_def del: set_map)
qed

lemma IntStatusType_get_value_eq:
  "IntStatusType_get_value type_ids sg fmt payload =
     (if set type_ids \<subseteq> set fmt
      then Some (from_bytes
                   (concat (map (\<lambda>t. take 2 (drop (2 * nat (find_bytes fmt t)) payload)) type_ids))
                   sg)
      else None)"
  by (simp add: IntStatusType_get_value_def BytesStatusType_get_value_eq)

lemma DecimalStatusType_get_value_eq:
  "DecimalStatusType_get_value type_ids scale sg fmt payload =
     (if set type_ids \<subseteq> set fmt
      then Some (Decimal
                   (from_bytes
                      (concat (map (\<lambda>t. take 2 (drop (2 * nat (find_bytes fmt t)) payload))
                                 type_ids))
                      sg)
                   scale)
      else None)"
  by (simp add: DecimalStatusType_get_value_def IntStatusType_get_value_eq Decimal_of_int_def)

text \<open>
  The resolution of a field declared as \<open>BytesStatusType\<close>, \<open>IntStatusType\<close> or
  \<open>DecimalStatusType\<close>: \<open>None\<close> if a type id is missing; otherwise the value is a
  function of the slots at the first index of each type id, concatenated in declared order.
\<close>

lemma plain_status_type_slots:
  "(\<forall>t\<in>set type_ids. t \<in> set fmt \<longrightarrow>
       nat (find_bytes fmt t) < length fmt \<and> fmt ! nat (find_bytes fmt t) = t \<and>
       (\<forall>j<nat (find_bytes fmt t). fmt ! j \<noteq> t)) \<and>
   (let slots = concat (map (\<lambda>t. take 2 (drop (2 * nat (find_bytes fmt t)) payload)) type_ids);
        present = (\<forall>t\<in>set type_ids. t \<in> set fmt)
    in get_value (BytesStatusType type_ids) fmt payload =
         Inr (if present then Some (BytesValue slots) else None) \<and>
       get_value (IntStatusType type_ids sg) fmt payload =
         Inr (if present then Some (IntValue (from_bytes slots sg)) else None) \<and>
       get_value (DecimalStatusType type_ids scale sg) fmt payload =
         Inr (if present then Some (DecimalValue (Decimal (from_bytes slots sg) scale)) else None))"
  using find_first [of _ fmt]
  by (simp add: Let_def BytesStatusType_get_value_eq IntStatusType_get_value_eq
        DecimalStatusType_get_value_eq subset_iff)

lemma status_type_of_operation_mode:
  "status_type_of ''operation_mode'' = Some OperationModeStatusType"
  by (simp add: status_type_of_def status_types_def)

text \<open>
  Claim C4 (every status field with declared type ids decodes to \<open>None\<close> when one of
  them is missing from the format, and otherwise to a function of its slots). The fields
  resolved by \<open>BytesStatusType\<close>, \<open>IntStatusType\<close> and \<open>DecimalStatusType\<close> do so
  (\<open>plain_status_type_slots\<close>). The field \<open>operation_mode\<close>, declared with type id
  \<open>0c\<close>, does not: \<open>OperationModeStatusType.get_value\<close> indexes its table with the
  \<open>None\<close> it gets from the superclass and raises \<open>KeyError\<close>, here for the format
  \<open>01\<close>; the loop of \<open>Inverter.status\<close> raises with it.
\<close>

theorem operation_mode_absent_raises:
  "status_type_of ''operation_mode'' = Some OperationModeStatusType \<and>
   get_value OperationModeStatusType [0x01] [0x00, 0x00] = Inl (KeyError None) \<and>
   status_loop status_types [0x01] [0x00, 0x00] [] = Inl (KeyError None)"
  by (simp add: status_type_of_def status_types_def OperationModeStatusType_get_value_def
        IntStatusType_get_value_eq getitem_def operating_modes_def)

text \<open>
  The same for every format without the byte \<open>0c\<close>.
\<close>

lemma OperationModeStatusType_absent:
  "0x0c \<notin> set fmt \<Longrightarrow> get_value OperationModeStatusType fmt payload = Inl (KeyError None)"
  by (simp add: OperationModeStatusType_get_value_def IntStatusType_get_value_eq getitem_def
        operating_modes_def)

text \<open>
  Claim C7 (the operation mode table). When the format contains the type id \<open>0c\<close>, its
  slot is at the first index \<open>i\<close> of \<open>0c\<close>, the slot is read as an unsigned big-endian
  integer \<open>n\<close>, and the field decodes to the table's string for \<open>n\<close> from 0 to 5 and
  otherwise raises the \<open>KeyError\<close> that carries \<open>n\<close>. (\<open>n\<close> is never negative.) The
  exception the spec calls \<open>UnknownOperationMode(n)\<close> is Python's \<open>KeyError(n)\<close> here.
\<close>

theorem operation_mode_lookup:
  assumes "0x0c \<in> set fmt"
  shows "let i = nat (find_bytes fmt 0x0c);
             n = from_bytes (take 2 (drop (2 * i) payload)) False
         in i < length fmt \<and> fmt ! i = 0x0c \<and> (\<forall>j<i. fmt ! j \<noteq> 0x0c) \<and>
            get_value OperationModeStatusType fmt payload =
              (if n = 0 then Inr (Some (StrValue ''Wait''))
               else if n = 1 then Inr (Some (StrValue ''Normal''))
               else if n = 2 then Inr (Some (StrValue ''Fault''))
               else if n = 3 then Inr (Some (StrValue ''Permanent fault''))
               else if n = 4 then Inr (Some (StrValue ''Check''))
               else if n = 5 then Inr (Some (StrValue ''PV power off''))
               else Inl (KeyError (Some n)))"
  using find_first [OF assms] assms
  by (simp add: Let_def OperationModeStatusType_get_value_def IntStatusType_get_value_eq
        getitem_def operating_modes_def)

text \<open>
  Witness for C7: format \<open>01 0c\<close>, with the slot of \<open>0c\<close> holding 1 and holding 7.
\<close>

theorem operation_mode_lookup_witness:
  "(0x0c :: byte) \<in> set [0x01, 0x0c] \<and>
   get_value OperationModeStatusType [0x01, 0x0c] [0x00, 0x00, 0x00, 0x01] =
     Inr (Some (StrValue ''Normal'')) \<and>
   get_value OperationModeStatusType [0x01, 0x0c] [0x00, 0x00, 0x00, 0x07] =
     Inl (KeyError (Some 7))"
  using operation_mode_lookup [of "[0x01, 0x0c]" "[0x00, 0x00, 0x00, 0x01]"]
    operation_mode_lookup [of "[0x01, 0x0c]" "[0x00, 0x00, 0x00, 0x07]"]
  by (simp add: Let_def find_bytes_def from_bytes_def from_bytes_big_def)

text \<open>
  The presence test of \<open>IfPresentStatusType.get_value\<close> is the test
  \<open>find != -1\<close> on the gate's type id.
\<close>

lemma actual_presence_iff:
  "(BytesStatusType_get_value [type_id] fmt payload \<noteq> None) \<longleftrightarrow> find_bytes fmt type_id \<noteq> -1"
  by (simp add: BytesStatusType_get_value_eq find_eq_minus_1_iff)

lemma IfPresentStatusType_get_value_eq:
  "get_value (IfPresentStatusType gate_id want_present inner) fmt payload =
     (if want_present = (find_bytes fmt gate_id \<noteq> -1) then get_value inner fmt payload
      else Inr None)"
  by (simp only: get_value.simps Let_def actual_presence_iff)

text \<open>
  Claim C6, as stated, fails in its consequence: the format \<open>51\<close> contains \<open>0x51\<close>, yet
  \<open>grid_voltage_r_phase\<close> decodes to \<open>None\<close>, because its inner decoder needs the
  type id \<open>32\<close>, which this format does not have.
\<close>

theorem grid_voltage_r_phase_not_produced:
  "status_type_of ''grid_voltage_r_phase'' =
     Some (IfPresentStatusType 0x51 True (DecimalStatusType [0x32] (-1) False)) \<and>
   (0x51 :: byte) \<in> set [0x51] \<and>
   get_value (IfPresentStatusType 0x51 True (DecimalStatusType [0x32] (-1) False))
     [0x51] [0x00, 0x00] = Inr None"
  by (simp add: status_type_of_def status_types_def IfPresentStatusType_get_value_eq
        find_eq_minus_1_iff DecimalStatusType_get_value_eq)

text \<open>
  Claim C6, amended. An \<open>IfPresentStatusType\<close> returns the inner status type's result
  when the presence of the gate's type id in the format equals \<open>presence\<close>, and \<open>None\<close>
  otherwise. Consequently, if the format contains \<open>0x51\<close> then \<open>grid_voltage\<close> is
  \<open>None\<close> and \<open>grid_voltage_r_phase\<close> is what its inner \<open>DecimalStatusType(0x32,
  scale=-1)\<close> gives; if the format does not contain \<open>0x51\<close> the reverse holds; and that
  inner value is not \<open>None\<close> exactly when the format contains \<open>0x32\<close>.
\<close>

theorem IfPresentStatusType_gate:
  "get_value (IfPresentStatusType gate_id want_present inner) fmt payload =
     (if want_present = (find_bytes fmt gate_id \<noteq> -1) then get_value inner fmt payload
      else Inr None) \<and>
   (find_bytes fmt gate_id \<noteq> -1 \<longleftrightarrow> gate_id \<in> set fmt) \<and>
   status_type_of ''grid_voltage'' =
     Some (IfPresentStatusType 0x51 False (DecimalStatusType [0x32] (-1) False)) \<and>
   status_type_of ''grid_voltage_r_phase'' =
     Some (IfPresentStatusType 0x51 True (DecimalStatusType [0x32] (-1) False)) \<and>
   (0x51 \<in> set fmt \<longrightarrow>
      get_value (IfPresentStatusType 0x51 False (DecimalStatusType [0x32] (-1) False)) fmt payload
        = Inr None \<and>
      get_value (IfPresentStatusType 0x51 True (DecimalStatusType [0x32] (-1) False)) fmt payload
        = get_value (DecimalStatusType [0x32] (-1) False) fmt payload) \<and>
   (0x51 \<notin> set fmt \<longrightarrow>
      get_value (IfPresentStatusType 0x51 True (DecimalStatusType [0x32] (-1) False)) fmt payload
        = Inr None \<and>
      get_value (IfPresentStatusType 0x51 False (DecimalStatusType [0x32] (-1) False)) fmt payload
        = get_value (DecimalStatusType [0x32] (-1) False) fmt payload) \<and>
   (get_value (DecimalStatusType [0x32] (-1) False) fmt payload \<noteq> Inr None \<longleftrightarrow> 0x32 \<in> set fmt)"
  by (simp add: status_type_of_def status_types_def IfPresentStatusType_get_value_eq
        find_eq_minus_1_iff DecimalStatusType_get_value_eq del: get_value.simps(6))

text \<open>
  Witness for C6: the formats \<open>32 51\<close> and \<open>32\<close>, with the slot of \<open>32\<close> holding 2340.
\<close>

theorem IfPresentStatusType_gate_witness:
  "(0x51 :: byte) \<in> set [0x32, 0x51] \<and> (0x51 :: byte) \<notin> set [0x32] \<and>
   get_value (IfPresentStatusType 0x51 False (DecimalStatusType [0x32] (-1) False))
     [0x32, 0x51] [0x09, 0x24, 0x00, 0x07] = Inr None \<and>
   get_value (IfPresentStatusType 0x51 True (DecimalStatusType [0x32] (-1) False))
     [0x32, 0x51] [0x09, 0x24, 0x00, 0x07] = Inr (Some (DecimalValue (Decimal 2340 (-1)))) \<and>
   get_value (IfPresentStatusType 0x51 True (DecimalStatusType [0x32] (-1) False))
     [0x32] [0x09, 0x24] = Inr None \<and>
   get_value (IfPresentStatusType 0x51 False (DecimalStatusType [0x32] (-1) False))
     [0x32] [0x09, 0x24] = Inr (Some (DecimalValue (Decimal 2340 (-1))))"
  using IfPresentStatusType_gate [where gate_id = "0x51" and want_present = True
          and inner = "DecimalStatusType [0x32] (-1) False"
          and fmt = "[0x32, 0x51]" and payload = "[0x09, 0x24, 0x00, 0x07]"]
    IfPresentStatusType_gate [where gate_id = "0x51" and want_present = True
          and inner = "DecimalStatusType [0x32] (-1) False"
          and fmt = "[0x32]" and payload = "[0x09, 0x24]"]
  by (simp add: DecimalStatusType_get_value_eq find_bytes_def from_bytes_def from_bytes_big_def
        del: get_value.simps(6))

text \<open>
  Claim C10. If one of the fields \<open>grid_voltage_r_phase\<close>, \<open>grid_current_r_phase\<close>,
  \<open>grid_frequency_r_phase\<close> decodes to a value, then so does \<open>grid_current_s_phase\<close>:
  the gate of the former is the type id \<open>0x51\<close>, the only type id of the latter, and a
  \<open>DecimalStatusType\<close> whose type id is in the format never gives \<open>None\<close>.
\<close>

theorem r_phase_implies_s_phase_current:
  assumes "name \<in> {''grid_voltage_r_phase'', ''grid_current_r_phase'', ''grid_frequency_r_phase''}"
    and "status_type_of name = Some r_phase"
    and "status_type_of ''grid_current_s_phase'' = Some s_phase"
    and "get_value r_phase fmt payload = Inr (Some v)"
  shows "\<exists>w. get_value s_phase fmt payload = Inr (Some w)"
proof -
  from assms(3) have s: "s_phase = DecimalStatusType [0x51] (-1) False"
    by (simp add: status_type_of_def status_types_def)
  from assms(1,2) obtain inner where r: "r_phase = IfPresentStatusType 0x51 True inner"
    by (auto simp: status_type_of_def status_types_def)
  from assms(4) have "find_bytes fmt 0x51 \<noteq> -1"
    unfolding r IfPresentStatusType_get_value_eq by (auto split: if_splits)
  then have "0x51 \<in> set fmt" by (simp add: find_eq_minus_1_iff)
  then show ?thesis unfolding s by (simp add: DecimalStatusType_get_value_eq)
qed

text \<open>
  Witness for C10: format \<open>32 51\<close> with a two-byte payload.
\<close>

theorem r_phase_implies_s_phase_current_witness:
  "''grid_voltage_r_phase'' \<in>
     {''grid_voltage_r_phase'', ''grid_current_r_phase'', ''grid_frequency_r_phase''} \<and>
   status_type_of ''grid_voltage_r_phase'' =
     Some (IfPresentStatusType 0x51 True (DecimalStatusType [0x32] (-1) False)) \<and>
   status_type_of ''grid_current_s_phase'' = Some (DecimalStatusType [0x51] (-1) False) \<and>
   get_value (IfPresentStatusType 0x51 True (DecimalStatusType [0x32] (-1) False))
     [0x32, 0x51] [0x09, 0x24] = Inr (Some (DecimalValue (Decimal 2340 (-1)))) \<and>
   (\<exists>w. get_value (DecimalStatusType [0x51] (-1) False) [0x32, 0x51] [0x09, 0x24] = Inr (Some w))"
proof -
  have a: "''grid_voltage_r_phase'' \<in>
     {''grid_voltage_r_phase'', ''grid_current_r_phase'', ''grid_frequency_r_phase''}" by simp
  have b: "status_type_of ''grid_voltage_r_phase'' =
     Some (IfPresentStatusType 0x51 True (DecimalStatusType [0x32] (-1) False))"
    by (simp add: status_type_of_def status_types_def)
  have c: "status_type_of ''grid_current_s_phase'' = Some (DecimalStatusType [0x51] (-1) False)"
    by (simp add: status_type_of_def status_types_def)
  have d: "get_value (IfPresentStatusType 0x51 True (DecimalStatusType [0x32] (-1) False))
     [0x32, 0x51] [0x09, 0x24] = Inr (Some (DecimalValue (Decimal 2340 (-1))))"
    by (simp add: IfPresentStatusType_get_value_eq DecimalStatusType_get_value_eq find_bytes_def
          from_bytes_def from_bytes_big_def del: get_value.simps(6))
  from r_phase_implies_s_phase_current [OF a b c d] a b c d show ?thesis by blast
qed

section \<open>Properties of the session\<close>

text \<open>
  \<open>send\<close> writes one message and touches neither the stream nor the cached format;
  \<open>receive\<close> and the loop of \<open>request\<close> only consume the stream and log.
\<close>

lemma send_Inr:
  "send ident payload s = (Inr u, s') \<Longrightarrow>
     \<exists>message. construct_message ident payload = Inr message \<and>
       s' = s\<lparr>logging := logging s @ [LogRecord DEBUG ''send'' [message]],
              sock_file_out := sock_file_out s @ [message]\<rparr>"
  by (auto simp: send_def split: sum.splits)

lemma send_Inl: "send ident payload s = (Inl e, s') \<Longrightarrow> s' = s"
  by (auto simp: send_def split: sum.splits)

lemma receive_preserves:
  "receive s = (r, s') \<Longrightarrow>
     priv_status_format s' = priv_status_format s \<and> sock_file_out s' = sock_file_out s"
  by (auto simp: receive_def split: prod.splits)

lemma request_loop_preserves:
  assumes "request_loop ident expected response s = Some y"
  shows "priv_status_format (snd y) = priv_status_format s \<and>
         sock_file_out (snd y) = sock_file_out s"
  using assms
proof (induction rule: request_loop.raw_induct [rotated 1, consumes 1])
  case (1 loop ident expected response s y)
  show ?case
  proof (cases "startswith (fst response) expected")
    case True
    with 1(2) show ?thesis by auto
  next
    case False
    define s1 where "s1 = s\<lparr>logging := logging s @
        [LogRecord WARNING ''unexpected response'' [fst response, ident]]\<rparr>"
    obtain r s2 where rc: "receive s1 = (r, s2)" by (cases "receive s1")
    from receive_preserves [OF rc]
    have keep: "priv_status_format s2 = priv_status_format s" "sock_file_out s2 = sock_file_out s"
      by (simp_all add: s1_def)
    show ?thesis
    proof (cases r)
      case (Inl e)
      with 1(2) False rc have "y = (Inl e, s2)" by (simp add: s1_def)
      with keep show ?thesis by simp
    next
      case (Inr response')
      with 1(2) False rc have "loop ident expected response' s2 = Some y" by (simp add: s1_def)
      from 1(1) [OF this] keep show ?thesis by simp
    qed
  qed
qed

lemma request_preserves:
  assumes "request ident payload expected s = Some (r, s')"
  shows "priv_status_format s' = priv_status_format s"
proof (cases "send ident payload s")
  case (Pair a s1)
  show ?thesis
  proof (cases a)
    case (Inl e)
    with Pair assms send_Inl [of ident payload s e s1] show ?thesis
      by (simp add: request_def)
  next
    case (Inr u)
    with Pair send_Inr [of ident payload s u s1]
    have f1: "priv_status_format s1 = priv_status_format s" by auto
    obtain b s2 where rc: "receive s1 = (b, s2)" by (cases "receive s1")
    from receive_preserves [OF rc] f1 have f2: "priv_status_format s2 = priv_status_format s"
      by simp
    show ?thesis
    proof (cases b)
      case (Inl e)
      with Pair \<open>a = Inr u\<close> rc assms f2 show ?thesis by (simp add: request_def)
    next
      case (Inr response)
      with Pair \<open>a = Inr u\<close> rc assms
      have "request_loop ident expected response s2 = Some (r, s')" by (simp add: request_def)
      from request_loop_preserves [OF this] f2 show ?thesis by simp
    qed
  qed
qed

text \<open>
  A request that returns a response has written exactly one message, its own.
\<close>

lemma request_sends_once:
  assumes "request ident payload expected s = Some (Inr response, s')"
  shows "\<exists>message. construct_message ident payload = Inr message \<and>
           sock_file_out s' = sock_file_out s @ [message]"
proof (cases "send ident payload s")
  case (Pair a s1)
  show ?thesis
  proof (cases a)
    case (Inl e)
    with Pair assms show ?thesis by (simp add: request_def)
  next
    case (Inr u)
    with Pair send_Inr [of ident payload s u s1]
    obtain message where m: "construct_message ident payload = Inr message"
      "sock_file_out s1 = sock_file_out s @ [message]" by auto
    obtain b s2 where rc: "receive s1 = (b, s2)" by (cases "receive s1")
    from receive_preserves [OF rc] have f2: "sock_file_out s2 = sock_file_out s1" by simp
    show ?thesis
    proof (cases b)
      case (Inl e)
      with Pair \<open>a = Inr u\<close> rc assms show ?thesis by (simp add: request_def)
    next
      case (Inr response')
      with Pair \<open>a = Inr u\<close> rc assms
      have "request_loop ident expected response' s2 = Some (Inr response, s')"
        by (simp add: request_def)
      from request_loop_preserves [OF this] f2 m show ?thesis by simp
    qed
  qed
qed

text \<open>
  A session whose cached format is \<open>0c 27\<close> and whose stream holds one response
  \<open>01 82 02\<close> with the two-byte payload \<open>00 01\<close>: the format asks for four bytes, the slot
  of \<open>27\<close> (\<open>pv1_input_power\<close>) is the byte range 2 to 4, beyond the payload.
\<close>

lemma request_status_eval:
  "request [0x01, 0x02, 0x02] [] [0x01, 0x82]
     \<lparr>priv_status_format = Some [0x0c, 0x27],
      sock_file_in = [0x55, 0xaa, 0x01, 0x82, 0x02, 0x00, 0x02, 0x00, 0x01, 0x01, 0x87],
      sock_file_out = [], logging = []\<rparr> =
   Some (Inr ([0x01, 0x82, 0x02], [0x00, 0x01]),
     \<lparr>priv_status_format = Some [0x0c, 0x27], sock_file_in = [],
      sock_file_out = [[0x55, 0xaa, 0x01, 0x02, 0x02, 0x00, 0x00, 0x01, 0x04]],
      logging = [LogRecord DEBUG ''send'' [[0x55, 0xaa, 0x01, 0x02, 0x02, 0x00, 0x00, 0x01, 0x04]]]\<rparr>)"
  by (simp add: request_def send_def construct_message_def calculate_checksum_def to_bytes_def
        to_bytes_big_2 Let_def receive_def read_message_def read_def from_bytes_def
        from_bytes_big_def request_loop.simps startswith_def)

lemma status_loop_eval:
  "status_loop status_types [0x0c, 0x27] [0x00, 0x01] [] =
     Inr [(''operation_mode'', StrValue ''Normal''),
          (''pv1_input_power'', DecimalValue (Decimal 0 0))]"
  by (simp add: status_types_def OperationModeStatusType_get_value_def
        IntStatusType_get_value_eq DecimalStatusType_get_value_eq IfPresentStatusType_get_value_eq
        find_eq_minus_1_iff getitem_def operating_modes_def find_bytes_def from_bytes_def
        from_bytes_big_def del: get_value.simps(6))

text \<open>
  Claim C5, as stated, fails in its last part: in that session the payload size differs
  from twice the format size, the warning is logged and decoding proceeds, but
  \<open>pv1_input_power\<close>, whose slot lies beyond the end of the payload, is in the sample
  with the value \<open>Decimal(0)\<close>; it is not reported as \<open>None\<close> (left out).
\<close>

theorem status_short_payload_reports_zero:
  "2 * length [0x0c, 0x27 :: byte] \<noteq> length [0x00, 0x01 :: byte] \<and>
   find_bytes [0x0c, 0x27] 0x27 = 1 \<and>
   slice_bytes [0x00, 0x01] (1 * 2) (1 * 2 + 2) = [] \<and>
   status
     \<lparr>priv_status_format = Some [0x0c, 0x27],
      sock_file_in = [0x55, 0xaa, 0x01, 0x82, 0x02, 0x00, 0x02, 0x00, 0x01, 0x01, 0x87],
      sock_file_out = [], logging = []\<rparr> =
   Some (Inr [(''operation_mode'', StrValue ''Normal''),
              (''pv1_input_power'', DecimalValue (Decimal 0 0))],
     \<lparr>priv_status_format = Some [0x0c, 0x27], sock_file_in = [],
      sock_file_out = [[0x55, 0xaa, 0x01, 0x02, 0x02, 0x00, 0x00, 0x01, 0x04]],
      logging = [LogRecord DEBUG ''send'' [[0x55, 0xaa, 0x01, 0x02, 0x02, 0x00, 0x00, 0x01, 0x04]],
                 LogRecord WARNING ''size of status payload and format differs''
                   [[0x0c, 0x27], [0x00, 0x01]]]\<rparr>)"
  by (simp add: status_def status_request_def request_status_eval status_loop_eval
        find_bytes_def slice_bytes_def slice_bound_def)

text \<open>
  What the loop of \<open>status\<close> leaves in the sample under a name: the value of the
  registry's status type of that name when it is not \<open>None\<close>.
\<close>

lemma status_loop_map_of:
  assumes "status_loop reg fmt payload acc = Inr sample" and "distinct (map fst reg)"
  shows "map_of sample name =
    (case map_of reg name of
       None \<Rightarrow> map_of acc name
     | Some type_def \<Rightarrow>
         (case get_value type_def fmt payload of
            Inr (Some v) \<Rightarrow> Some v
          | _ \<Rightarrow> map_of acc name))"
  using assms
proof (induction reg arbitrary: acc)
  case Nil
  then show ?case by simp
next
  case (Cons entry rest)
  obtain n td where entry: "entry = (n, td)" by (cases entry)
  from Cons.prems(2) have dist: "distinct (map fst rest)" and fresh: "map_of rest n = None"
    by (auto simp: entry map_of_eq_None_iff)
  from Cons.prems(1) obtain val where gv: "get_value td fmt payload = Inr val"
    by (auto simp: entry split: sum.splits)
  show ?case
  proof (cases val)
    case None
    with Cons.prems(1) gv have "status_loop rest fmt payload acc = Inr sample"
      by (simp add: entry)
    from Cons.IH [OF this dist] fresh gv None show ?thesis
      by (simp add: entry)
  next
    case (Some v)
    with Cons.prems(1) gv
    have "status_loop rest fmt payload (AList.update n v acc) = Inr sample"
      by (simp add: entry)
    have upd: "map_of (AList.update n v acc) name = (if name = n then Some v else map_of acc name)"
      by (simp add: update_conv)
    have ih: "map_of sample name =
      (case map_of rest name of
         None \<Rightarrow> (if name = n then Some v else map_of acc name)
       | Some type_def \<Rightarrow>
           (case get_value type_def fmt payload of
              Inr (Some v') \<Rightarrow> Some v'
            | _ \<Rightarrow> (if name = n then Some v else map_of acc name)))"
      using Cons.IH [OF \<open>status_loop rest fmt payload (AList.update n v acc) = Inr sample\<close> dist]
      unfolding upd .
    from ih fresh gv Some show ?thesis
      by (cases "name = n") (simp_all add: entry)
  qed
qed

lemma distinct_status_types: "distinct (map fst status_types)"
  by (simp add: status_types_def)

text \<open>
  Slots that start at or after the end of the payload are empty, and the empty byte
  string is the integer 0.
\<close>

lemma slots_beyond_payload:
  assumes "\<forall>t\<in>set type_ids. length payload \<le> 2 * nat (find_bytes fmt t)"
  shows "concat (map (\<lambda>t. take 2 (drop (2 * nat (find_bytes fmt t)) payload)) type_ids) = []"
  using assms by (induction type_ids) simp_all

lemma from_bytes_empty: "from_bytes [] sg = 0"
  by (simp add: from_bytes_def from_bytes_big_def)

text \<open>
  Whether a status type gives \<open>None\<close> is decided by the format alone: it is the same
  for every payload.
\<close>

lemma OperationMode_not_None:
  "get_value OperationModeStatusType fmt p \<noteq> Inr None"
  by (simp split: sum.splits)

lemma get_value_None_iff:
  "(get_value d fmt p = Inr None) = (get_value d fmt p' = Inr None)"
proof (induction d)
  case (BytesStatusType ids)
  show ?case by (simp add: BytesStatusType_get_value_eq)
next
  case (IntStatusType ids sg)
  show ?case by (simp add: IntStatusType_get_value_eq)
next
  case (DecimalStatusType ids scale sg)
  show ?case by (simp add: DecimalStatusType_get_value_eq)
next
  case OperationModeStatusType
  show ?case using OperationMode_not_None by simp
next
  case (OneOfStatusType ds)
  then have "(OneOfStatusType_get_value ds fmt p = Inr None) =
             (OneOfStatusType_get_value ds fmt p' = Inr None)"
  proof (induction ds)
    case Nil
    show ?case by simp
  next
    case (Cons d ds)
    from Cons.prems have hd: "(get_value d fmt p = Inr None) = (get_value d fmt p' = Inr None)"
      by simp
    from Cons have tl: "(OneOfStatusType_get_value ds fmt p = Inr None) =
             (OneOfStatusType_get_value ds fmt p' = Inr None)" by simp
    show ?case
    proof (cases "get_value d fmt p = Inr None")
      case True
      with hd tl show ?thesis by simp
    next
      case False
      with hd have "get_value d fmt p' \<noteq> Inr None" by simp
      with False show ?thesis by (auto split: sum.splits option.splits)
    qed
  qed
  then show ?case by simp
next
  case (IfPresentStatusType g w d)
  then show ?case by (simp add: IfPresentStatusType_get_value_eq del: get_value.simps(6))
qed

text \<open>
  A status type whose slots, for the type ids that are in the format, all start at or
  after the end of the payload decodes as it does from the empty payload, and a value
  decoded from the empty payload is the zero of its kind.
\<close>

lemma concat_map_empty: "concat (map (\<lambda>t. []) ids) = []"
  by (induction ids) simp_all

lemma Bytes_beyond_eq_empty:
  assumes "\<forall>t\<in>set ids. t \<in> set fmt \<longrightarrow> length p \<le> 2 * nat (find_bytes fmt t)"
  shows "BytesStatusType_get_value ids fmt p = BytesStatusType_get_value ids fmt []"
proof (cases "set ids \<subseteq> set fmt")
  case True
  with assms have "\<forall>t\<in>set ids. length p \<le> 2 * nat (find_bytes fmt t)" by auto
  from slots_beyond_payload [OF this] True show ?thesis
    by (simp add: BytesStatusType_get_value_eq concat_map_empty)
next
  case False
  then show ?thesis by (simp add: BytesStatusType_get_value_eq)
qed

lemma get_value_beyond_eq_empty:
  "\<forall>t\<in>set (slot_ids d). t \<in> set fmt \<longrightarrow> length p \<le> 2 * nat (find_bytes fmt t) \<Longrightarrow>
   get_value d fmt p = get_value d fmt []"
proof (induction d)
  case (BytesStatusType ids)
  then show ?case using Bytes_beyond_eq_empty [of ids fmt p] by simp
next
  case (IntStatusType ids sg)
  then show ?case using Bytes_beyond_eq_empty [of ids fmt p]
    by (simp add: IntStatusType_get_value_def)
next
  case (DecimalStatusType ids scale sg)
  then show ?case using Bytes_beyond_eq_empty [of ids fmt p]
    by (simp add: DecimalStatusType_get_value_def IntStatusType_get_value_def)
next
  case OperationModeStatusType
  then show ?case using Bytes_beyond_eq_empty [of "[0x0c]" fmt p]
    by (simp add: OperationModeStatusType_get_value_def IntStatusType_get_value_def)
next
  case (OneOfStatusType ds)
  then have "OneOfStatusType_get_value ds fmt p = OneOfStatusType_get_value ds fmt []"
  proof (induction ds)
    case Nil
    show ?case by simp
  next
    case (Cons d ds)
    from Cons.prems have hd: "get_value d fmt p = get_value d fmt []" by simp
    from Cons have tl: "OneOfStatusType_get_value ds fmt p = OneOfStatusType_get_value ds fmt []"
      by simp
    from hd tl show ?case by (auto split: sum.splits option.splits)
  qed
  then show ?case by simp
next
  case (IfPresentStatusType g w d)
  then show ?case by (simp add: IfPresentStatusType_get_value_eq del: get_value.simps(6))
qed

lemma get_value_empty_reads_as_zero:
  "get_value d fmt [] = Inr (Some v) \<Longrightarrow> reads_as_zero v"
proof (induction d arbitrary: v)
  case (BytesStatusType ids)
  then show ?case by (auto simp: BytesStatusType_get_value_eq concat_map_empty split: if_splits)
next
  case (IntStatusType ids sg)
  then show ?case
    by (auto simp: IntStatusType_get_value_eq from_bytes_empty concat_map_empty split: if_splits)
next
  case (DecimalStatusType ids scale sg)
  then show ?case
    by (auto simp: DecimalStatusType_get_value_eq from_bytes_empty concat_map_empty
          split: if_splits)
next
  case OperationModeStatusType
  then show ?case
    by (auto simp: OperationModeStatusType_get_value_def IntStatusType_get_value_eq
          from_bytes_empty concat_map_empty getitem_def operating_modes_def
          split: if_splits sum.splits)
next
  case (OneOfStatusType ds)
  then have "OneOfStatusType_get_value ds fmt [] = Inr (Some v) \<Longrightarrow> reads_as_zero v"
  proof (induction ds)
    case Nil
    then show ?case by simp
  next
    case (Cons d ds)
    then show ?case by (auto split: sum.splits option.splits)
  qed
  with OneOfStatusType.prems show ?case by simp
next
  case (IfPresentStatusType g w d)
  then show ?case
    by (auto simp: IfPresentStatusType_get_value_eq simp del: get_value.simps(6) split: if_splits)
qed

text \<open>
  When the loop of \<open>status\<close> returns a sample, no status type has raised, and what the
  sample holds under a declared name is what its status type returned.
\<close>

lemma status_loop_no_error:
  assumes "status_loop reg fmt payload acc = Inr sample" and "(name, type_def) \<in> set reg"
  shows "\<exists>val. get_value type_def fmt payload = Inr val"
  using assms
proof (induction reg arbitrary: acc)
  case Nil
  then show ?case by simp
next
  case (Cons entry rest)
  obtain n td where entry: "entry = (n, td)" by (cases entry)
  from Cons.prems(1) obtain val where gv: "get_value td fmt payload = Inr val"
    by (auto simp: entry split: sum.splits)
  from Cons.prems(1) gv obtain acc' where rest: "status_loop rest fmt payload acc' = Inr sample"
    by (cases val) (auto simp: entry)
  show ?case
  proof (cases "(name, type_def) = (n, td)")
    case True
    with gv show ?thesis by auto
  next
    case False
    with Cons.prems(2) have "(name, type_def) \<in> set rest" by (auto simp: entry)
    from Cons.IH [OF rest this] show ?thesis .
  qed
qed

lemma status_loop_entry:
  assumes loop: "status_loop status_types fmt payload [] = Inr sample"
    and entry: "(name, type_def) \<in> set status_types"
  shows "get_value type_def fmt payload = Inr (map_of sample name)"
proof -
  from status_loop_no_error [OF loop entry] obtain val
    where gv: "get_value type_def fmt payload = Inr val" by blast
  from entry have "map_of status_types name = Some type_def"
    using distinct_status_types by simp
  with status_loop_map_of [OF loop distinct_status_types, of name] gv
  have "map_of sample name = val" by (cases val) simp_all
  with gv show ?thesis by simp
qed

text \<open>
  Claim C5, amended. When the status payload length differs from twice the length of the
  format (cached before the call, or fetched by it), \<open>status\<close> logs the warning and
  decoding still proceeds over the whole registry. Slots beyond the end of the payload
  never make a field \<open>None\<close>: for every field of the registry, whether it is left out of
  the sample is the same for every payload (a type id missing from the format, a closed
  gate). A slot beyond the end is read as an empty byte string: a field whose slots, for
  its type ids that are in the format, all start at or after the end of the payload is
  decoded as from the empty payload, and when it is in the sample its value is the zero of
  its kind (integer 0, a decimal with coefficient 0, the operation mode \<open>Wait\<close>). A field
  declared directly as \<open>DecimalStatusType\<close> or \<open>IntStatusType\<close> whose type ids are all
  in the format is then in the sample with the value 0 (for a decimal, 0 at the field's
  scale).
\<close>

theorem status_short_payload:
  assumes lookup:
      "(truthy (priv_status_format s0) \<and> s = s0) \<or>
       (\<not> truthy (priv_status_format s0) \<and>
        (\<exists>f s'. status_format s0 = Some (Inr f, s') \<and> s = s'\<lparr>priv_status_format := Some f\<rparr>))"
    and cached: "priv_status_format s = Some fmt"
    and req: "request [0x01, 0x02, 0x02] [] [0x01, 0x82] s = Some (Inr (ident, payload), s1)"
    and differs: "2 * length fmt \<noteq> length payload"
    and beyond: "\<forall>t\<in>set type_ids. t \<in> set fmt \<and> length payload \<le> 2 * nat (find_bytes fmt t)"
  shows "status s0 =
           Some (status_loop status_types fmt payload [],
                 s1\<lparr>logging := logging s1 @
                      [LogRecord WARNING ''size of status payload and format differs''
                         [fmt, payload]]\<rparr>) \<and>
         (\<forall>sample. status_loop status_types fmt payload [] = Inr sample \<longrightarrow>
            ((name, DecimalStatusType type_ids scale sg) \<in> set status_types \<longrightarrow>
               map_of sample name = Some (DecimalValue (Decimal 0 scale))) \<and>
            ((name, IntStatusType type_ids sg) \<in> set status_types \<longrightarrow>
               map_of sample name = Some (IntValue 0)) \<and>
            (\<forall>type_def. (name, type_def) \<in> set status_types \<longrightarrow>
               (\<forall>payload'. (map_of sample name = None) =
                             (get_value type_def fmt payload' = Inr None)) \<and>
               ((\<forall>t\<in>set (slot_ids type_def).
                    t \<in> set fmt \<longrightarrow> length payload \<le> 2 * nat (find_bytes fmt t)) \<longrightarrow>
                get_value type_def fmt [] = Inr (map_of sample name) \<and>
                (\<forall>v. map_of sample name = Some v \<longrightarrow> reads_as_zero v))))"
proof -
  have slots: "concat (map (\<lambda>t. take 2 (drop (2 * nat (find_bytes fmt t)) payload)) type_ids) = []"
    using beyond by (intro slots_beyond_payload) simp
  from lookup have entry: "status s0 = status_request s"
    by (auto simp: status_def)
  from request_preserves [OF req] cached have "priv_status_format s1 = Some fmt" by simp
  with req differs have run: "status s0 =
           Some (status_loop status_types fmt payload [],
                 s1\<lparr>logging := logging s1 @
                      [LogRecord WARNING ''size of status payload and format differs''
                         [fmt, payload]]\<rparr>)"
    by (simp add: entry status_request_def)
  have fields: "((name, DecimalStatusType type_ids scale sg) \<in> set status_types \<longrightarrow>
               map_of sample name = Some (DecimalValue (Decimal 0 scale))) \<and>
            ((name, IntStatusType type_ids sg) \<in> set status_types \<longrightarrow>
               map_of sample name = Some (IntValue 0)) \<and>
            (\<forall>type_def. (name, type_def) \<in> set status_types \<longrightarrow>
               (\<forall>payload'. (map_of sample name = None) =
                             (get_value type_def fmt payload' = Inr None)) \<and>
               ((\<forall>t\<in>set (slot_ids type_def).
                    t \<in> set fmt \<longrightarrow> length payload \<le> 2 * nat (find_bytes fmt t)) \<longrightarrow>
                get_value type_def fmt [] = Inr (map_of sample name) \<and>
                (\<forall>v. map_of sample name = Some v \<longrightarrow> reads_as_zero v)))"
    if loop: "status_loop status_types fmt payload [] = Inr sample" for sample
  proof (intro conjI allI impI)
    assume e: "(name, DecimalStatusType type_ids scale sg) \<in> set status_types"
    have "get_value (DecimalStatusType type_ids scale sg) fmt payload =
        Inr (Some (DecimalValue (Decimal 0 scale)))"
      using beyond
      by (simp add: DecimalStatusType_get_value_eq subset_iff from_bytes_empty slots)
    with status_loop_entry [OF loop e]
    show "map_of sample name = Some (DecimalValue (Decimal 0 scale))" by simp
  next
    assume e: "(name, IntStatusType type_ids sg) \<in> set status_types"
    have "get_value (IntStatusType type_ids sg) fmt payload = Inr (Some (IntValue 0))"
      using beyond
      by (simp add: IntStatusType_get_value_eq subset_iff from_bytes_empty slots)
    with status_loop_entry [OF loop e]
    show "map_of sample name = Some (IntValue 0)" by simp
  next
    fix type_def payload'
    assume e: "(name, type_def) \<in> set status_types"
    from status_loop_entry [OF loop e]
    have "(map_of sample name = None) = (get_value type_def fmt payload = Inr None)" by auto
    also have "\<dots> = (get_value type_def fmt payload' = Inr None)"
      by (rule get_value_None_iff)
    finally show "(map_of sample name = None) = (get_value type_def fmt payload' = Inr None)" .
  next
    fix type_def
    assume e: "(name, type_def) \<in> set status_types"
      and b: "\<forall>t\<in>set (slot_ids type_def).
                t \<in> set fmt \<longrightarrow> length payload \<le> 2 * nat (find_bytes fmt t)"
    from get_value_beyond_eq_empty [OF b] status_loop_entry [OF loop e]
    show "get_value type_def fmt [] = Inr (map_of sample name)" by simp
  next
    fix type_def v
    assume e: "(name, type_def) \<in> set status_types"
      and b: "\<forall>t\<in>set (slot_ids type_def).
                t \<in> set fmt \<longrightarrow> length payload \<le> 2 * nat (find_bytes fmt t)"
      and v: "map_of sample name = Some v"
    from get_value_beyond_eq_empty [OF b] status_loop_entry [OF loop e] v
    have "get_value type_def fmt [] = Inr (Some v)" by simp
    then show "reads_as_zero v" by (rule get_value_empty_reads_as_zero)
  qed
  from run fields show ?thesis by blast
qed

text \<open>
  A session whose cached format is \<open>0c 27 0b 32\<close> and whose stream holds one response
  \<open>01 82 02\<close> with the two-byte payload \<open>00 01\<close>: only the slot of \<open>0c\<close> is inside the
  payload.
\<close>

lemma request_status_eval_wrapped:
  "request [0x01, 0x02, 0x02] [] [0x01, 0x82]
     \<lparr>priv_status_format = Some [0x0c, 0x27, 0x0b, 0x32],
      sock_file_in = [0x55, 0xaa, 0x01, 0x82, 0x02, 0x00, 0x02, 0x00, 0x01, 0x01, 0x87],
      sock_file_out = [], logging = []\<rparr> =
   Some (Inr ([0x01, 0x82, 0x02], [0x00, 0x01]),
     \<lparr>priv_status_format = Some [0x0c, 0x27, 0x0b, 0x32], sock_file_in = [],
      sock_file_out = [[0x55, 0xaa, 0x01, 0x02, 0x02, 0x00, 0x00, 0x01, 0x04]],
      logging = [LogRecord DEBUG ''send'' [[0x55, 0xaa, 0x01, 0x02, 0x02, 0x00, 0x00, 0x01, 0x04]]]\<rparr>)"
  by (simp add: request_def send_def construct_message_def calculate_checksum_def to_bytes_def
        to_bytes_big_2 Let_def receive_def read_message_def read_def from_bytes_def
        from_bytes_big_def request_loop.simps startswith_def)

lemma status_loop_eval_wrapped:
  "status_loop status_types [0x0c, 0x27, 0x0b, 0x32] [0x00, 0x01] [] =
     Inr [(''operation_mode'', StrValue ''Normal''),
          (''pv1_input_power'', DecimalValue (Decimal 0 0)),
          (''output_power'', DecimalValue (Decimal 0 0)),
          (''grid_voltage'', DecimalValue (Decimal 0 (-1)))]"
  by (simp add: status_types_def OperationModeStatusType_get_value_def
        IntStatusType_get_value_eq DecimalStatusType_get_value_eq IfPresentStatusType_get_value_eq
        find_eq_minus_1_iff getitem_def operating_modes_def find_bytes_def from_bytes_def
        from_bytes_big_def del: get_value.simps(6))

text \<open>
  Witness for C5: that session, with the directly declared \<open>pv1_input_power\<close>; the
  sample also holds the wrapped \<open>output_power\<close> with value 0, and has no
  \<open>grid_voltage_r_phase\<close>, whose gate \<open>51\<close> is not in the format.
\<close>

theorem status_short_payload_witness:
  "truthy (priv_status_format
     \<lparr>priv_status_format = Some [0x0c, 0x27, 0x0b, 0x32],
      sock_file_in = [0x55, 0xaa, 0x01, 0x82, 0x02, 0x00, 0x02, 0x00, 0x01, 0x01, 0x87],
      sock_file_out = [], logging = []\<rparr>) \<and>
   2 * length [0x0c, 0x27, 0x0b, 0x32 :: byte] \<noteq> length [0x00, 0x01 :: byte] \<and>
   (0x27 :: byte) \<in> set [0x0c, 0x27, 0x0b, 0x32] \<and>
   length [0x00, 0x01 :: byte] \<le> 2 * nat (find_bytes [0x0c, 0x27, 0x0b, 0x32] 0x27) \<and>
   length [0x00, 0x01 :: byte] \<le> 2 * nat (find_bytes [0x0c, 0x27, 0x0b, 0x32] 0x0b) \<and>
   (0x34 :: byte) \<notin> set [0x0c, 0x27, 0x0b, 0x32] \<and>
   (''pv1_input_power'', DecimalStatusType [0x27] 0 False) \<in> set status_types \<and>
   (''output_power'',
      OneOfStatusType [DecimalStatusType [0x0b] 0 False, DecimalStatusType [0x34] 0 False])
     \<in> set status_types \<and>
   (\<exists>sample s'.
      status
        \<lparr>priv_status_format = Some [0x0c, 0x27, 0x0b, 0x32],
         sock_file_in = [0x55, 0xaa, 0x01, 0x82, 0x02, 0x00, 0x02, 0x00, 0x01, 0x01, 0x87],
         sock_file_out = [], logging = []\<rparr> = Some (Inr sample, s') \<and>
      last (logging s') =
        LogRecord WARNING ''size of status payload and format differs''
          [[0x0c, 0x27, 0x0b, 0x32], [0x00, 0x01]] \<and>
      map_of sample ''pv1_input_power'' = Some (DecimalValue (Decimal 0 0)) \<and>
      map_of sample ''output_power'' = Some (DecimalValue (Decimal 0 0)) \<and>
      reads_as_zero (DecimalValue (Decimal 0 0)) \<and>
      map_of sample ''grid_voltage_r_phase'' = None)"
proof -
  let ?fmt = "[0x0c, 0x27, 0x0b, 0x32 :: byte]"
  let ?s = "\<lparr>priv_status_format = Some ?fmt,
      sock_file_in = [0x55, 0xaa, 0x01, 0x82, 0x02, 0x00, 0x02, 0x00, 0x01, 0x01, 0x87 :: byte],
      sock_file_out = [], logging = []\<rparr>"
  have h0: "(truthy (priv_status_format ?s) \<and> ?s = ?s) \<or>
       (\<not> truthy (priv_status_format ?s) \<and>
        (\<exists>f s'. status_format ?s = Some (Inr f, s') \<and> ?s = s'\<lparr>priv_status_format := Some f\<rparr>))"
    by simp
  have h1: "priv_status_format ?s = Some ?fmt" by simp
  note h3 = request_status_eval_wrapped
  have h4: "2 * length ?fmt \<noteq> length [0x00, 0x01 :: byte]" by simp
  have h5: "\<forall>t\<in>set [0x27 :: byte].
      t \<in> set ?fmt \<and> length [0x00, 0x01 :: byte] \<le> 2 * nat (find_bytes ?fmt t)"
    by (simp add: find_bytes_def)
  have h6: "(''pv1_input_power'', DecimalStatusType [0x27] 0 False) \<in> set status_types"
    by (simp add: status_types_def)
  have h7: "(''output_power'',
      OneOfStatusType [DecimalStatusType [0x0b] 0 False, DecimalStatusType [0x34] 0 False])
     \<in> set status_types"
    by (simp add: status_types_def)
  have h8: "length [0x00, 0x01 :: byte] \<le> 2 * nat (find_bytes ?fmt 0x0b)"
    by (simp add: find_bytes_def)
  from status_short_payload [OF h0 h1 h3 h4 h5, of "''pv1_input_power''" 0 False]
  have run: "status ?s =
      Some (status_loop status_types ?fmt [0x00, 0x01] [],
            \<lparr>priv_status_format = Some ?fmt, sock_file_in = [],
             sock_file_out = [[0x55, 0xaa, 0x01, 0x02, 0x02, 0x00, 0x00, 0x01, 0x04]],
             logging = [LogRecord DEBUG ''send''
                          [[0x55, 0xaa, 0x01, 0x02, 0x02, 0x00, 0x00, 0x01, 0x04]],
                        LogRecord WARNING ''size of status payload and format differs''
                          [?fmt, [0x00, 0x01]]]\<rparr>)"
    by simp
  show ?thesis
    using run status_loop_eval_wrapped h5 h6 h7 h8 by simp
qed

text \<open>
  With a cached format that Python takes as true (not \<open>None\<close>, not empty), a \<open>status\<close>
  call that returns a sample has written exactly one message, the status request
  \<open>01 02 02\<close>: no format request is issued.
\<close>

lemma status_cached_sends_once:
  assumes "truthy (priv_status_format s)" and "status s = Some (Inr sample, s')"
  shows "sock_file_out s' = sock_file_out s @ [[0x55, 0xaa, 0x01, 0x02, 0x02, 0x00, 0x00, 0x01, 0x04]]"
proof -
  from assms have sr: "status_request s = Some (Inr sample, s')" by (simp add: status_def)
  then obtain resp s1 where req: "request [0x01, 0x02, 0x02] [] [0x01, 0x82] s = Some (Inr resp, s1)"
    and out: "sock_file_out s' = sock_file_out s1"
    by (auto simp: status_request_def Let_def split: option.splits sum.splits prod.splits if_splits)
  have cm: "construct_message [0x01, 0x02, 0x02] [] =
      Inr [0x55, 0xaa, 0x01, 0x02, 0x02, 0x00, 0x00, 0x01, 0x04]"
    by (simp add: construct_message_def calculate_checksum_def to_bytes_def to_bytes_big_2 Let_def)
  from request_sends_once [OF req] cm out show ?thesis by simp
qed

text \<open>
  Claim C9 (the format is cached by the first successful fetch and never requested again,
  whatever format the device returns). An empty format is cached as \<open>b''\<close>, which the
  test \<open>not self._status_format\<close> takes for a missing one. The stream below holds, twice,
  a response \<open>01 80 02\<close> with empty payload and a response \<open>01 82 02\<close> with empty
  payload. The first \<open>status\<close> call caches the empty format; the second call, although
  the cache holds \<open>Some []\<close>, writes the format request \<open>01 00 02\<close> again. (Both calls
  end in the \<open>KeyError\<close> of \<open>operation_mode\<close>, an empty format having no byte \<open>0c\<close>;
  the format request has been written by then.)
\<close>

theorem status_empty_format_refetched:
  "status
     \<lparr>priv_status_format = None,
      sock_file_in = [0x55, 0xaa, 0x01, 0x80, 0x02, 0x00, 0x00, 0x01, 0x82,
                      0x55, 0xaa, 0x01, 0x82, 0x02, 0x00, 0x00, 0x01, 0x84,
                      0x55, 0xaa, 0x01, 0x80, 0x02, 0x00, 0x00, 0x01, 0x82,
                      0x55, 0xaa, 0x01, 0x82, 0x02, 0x00, 0x00, 0x01, 0x84],
      sock_file_out = [], logging = []\<rparr> =
   Some (Inl (KeyError None),
     \<lparr>priv_status_format = Some [],
      sock_file_in = [0x55, 0xaa, 0x01, 0x80, 0x02, 0x00, 0x00, 0x01, 0x82,
                      0x55, 0xaa, 0x01, 0x82, 0x02, 0x00, 0x00, 0x01, 0x84],
      sock_file_out = [[0x55, 0xaa, 0x01, 0x00, 0x02, 0x00, 0x00, 0x01, 0x02],
                       [0x55, 0xaa, 0x01, 0x02, 0x02, 0x00, 0x00, 0x01, 0x04]],
      logging = [LogRecord DEBUG ''send'' [[0x55, 0xaa, 0x01, 0x00, 0x02, 0x00, 0x00, 0x01, 0x02]],
                 LogRecord DEBUG ''send'' [[0x55, 0xaa, 0x01, 0x02, 0x02, 0x00, 0x00, 0x01, 0x04]]]\<rparr>) \<and>
   status
     \<lparr>priv_status_format = Some [],
      sock_file_in = [0x55, 0xaa, 0x01, 0x80, 0x02, 0x00, 0x00, 0x01, 0x82,
                      0x55, 0xaa, 0x01, 0x82, 0x02, 0x00, 0x00, 0x01, 0x84],
      sock_file_out = [[0x55, 0xaa, 0x01, 0x00, 0x02, 0x00, 0x00, 0x01, 0x02],
                       [0x55, 0xaa, 0x01, 0x02, 0x02, 0x00, 0x00, 0x01, 0x04]],
      logging = [LogRecord DEBUG ''send'' [[0x55, 0xaa, 0x01, 0x00, 0x02, 0x00, 0x00, 0x01, 0x02]],
                 LogRecord DEBUG ''send'' [[0x55, 0xaa, 0x01, 0x02, 0x02, 0x00, 0x00, 0x01, 0x04]]]\<rparr> =
   Some (Inl (KeyError None),
     \<lparr>priv_status_format = Some [],
      sock_file_in = [],
      sock_file_out = [[0x55, 0xaa, 0x01, 0x00, 0x02, 0x00, 0x00, 0x01, 0x02],
                       [0x55, 0xaa, 0x01, 0x02, 0x02, 0x00, 0x00, 0x01, 0x04],
                       [0x55, 0xaa, 0x01, 0x00, 0x02, 0x00, 0x00, 0x01, 0x02],
                       [0x55, 0xaa, 0x01, 0x02, 0x02, 0x00, 0x00, 0x01, 0x04]],
      logging = [LogRecord DEBUG ''send'' [[0x55, 0xaa, 0x01, 0x00, 0x02, 0x00, 0x00, 0x01, 0x02]],
                 LogRecord DEBUG ''send'' [[0x55, 0xaa, 0x01, 0x02, 0x02, 0x00, 0x00, 0x01, 0x04]],
                 LogRecord DEBUG ''send'' [[0x55, 0xaa, 0x01, 0x00, 0x02, 0x00, 0x00, 0x01, 0x02]],
                 LogRecord DEBUG ''send'' [[0x55, 0xaa, 0x01, 0x02, 0x02, 0x00, 0x00, 0x01, 0x04]]]\<rparr>)"
  by (simp add: status_def status_format_def status_request_def request_def send_def
        construct_message_def calculate_checksum_def to_bytes_def to_bytes_big_2 Let_def
        receive_def read_message_def read_def from_bytes_def from_bytes_big_def
        request_loop.simps startswith_def status_types_def OperationModeStatusType_get_value_def
        IntStatusType_get_value_eq getitem_def operating_modes_def)

text \<open>
  Claim C8 (the keep-alive period defaults to 11 seconds; a keep-alive sends one request
  \<open>01 09 02\<close> with empty payload and consumes one response). The default of the
  constructor is \<open>10.0\<close>, not the 11 seconds its docstring gives.
\<close>

theorem keep_alive_default_is_10:
  "keep_alive_period (KeepAliveInverter_init [] None) = 10 \<and>
   keep_alive_period (KeepAliveInverter_init [] None) \<noteq> 11"
  by (simp add: KeepAliveInverter_init_def)

text \<open>
  The rest of C8 holds: a \<open>keep_alive\<close> call that returns has written the one frame
  \<open>55 aa 01 09 02 00 00 01 0b\<close> and taken one message off the stream, whose content it
  drops.
\<close>

lemma keep_alive_one_request_one_response:
  assumes "keep_alive s = (Inr u, s')"
  shows "sock_file_out s' =
           sock_file_out s @ [[0x55, 0xaa, 0x01, 0x09, 0x02, 0x00, 0x00, 0x01, 0x0b]] \<and>
         (\<exists>msg. read_message (sock_file_in s) = (Inr msg, sock_file_in s'))"
proof -
  have cm: "construct_message [0x01, 0x09, 0x02] [] =
      Inr [0x55, 0xaa, 0x01, 0x09, 0x02, 0x00, 0x00, 0x01, 0x0b]"
    by (simp add: construct_message_def calculate_checksum_def to_bytes_def to_bytes_big_2 Let_def)
  from assms show ?thesis
    by (auto simp: keep_alive_def send_def cm receive_def split: prod.splits sum.splits)
qed

end
